theory Spec2Isabelle
  imports Main "HOL-Library.Word"
begin

section \<open>pi-retry: a shallow embedding of \<^verbatim>\<open>src/index.ts\<close>\<close>

subsection \<open>Strings\<close>

text \<open>
  A JavaScript string is a sequence of UTF-16 code units. String literals of the source
  are written \<open>js ''...''\<close>; the two non-ASCII characters that occur in the source's
  literals (an em dash and an ellipsis) are given by their code units.
\<close>

type_synonym code_unit = "16 word"
type_synonym jsstring = "code_unit list"

definition js :: "string \<Rightarrow> jsstring" where
  "js s = map of_char s"

text \<open>
  \<^verbatim>\<open>String.prototype.trim\<close> strips WhiteSpace and LineTerminator code points from both
  ends: TAB, LF, VT, FF, CR, SP, NBSP, U+1680, U+2000..U+200A, U+2028, U+2029, U+202F,
  U+205F, U+3000 and U+FEFF.
\<close>

definition isLineTerminator :: "code_unit \<Rightarrow> bool" where
  "isLineTerminator c \<longleftrightarrow> c = 0x0A \<or> c = 0x0D \<or> c = 0x2028 \<or> c = 0x2029"

definition isWhiteSpace :: "code_unit \<Rightarrow> bool" where
  "isWhiteSpace c \<longleftrightarrow>
     c = 0x09 \<or> c = 0x0B \<or> c = 0x0C \<or> c = 0x20 \<or> c = 0xA0 \<or> c = 0x1680 \<or>
     (0x2000 \<le> c \<and> c \<le> 0x200A) \<or> c = 0x202F \<or> c = 0x205F \<or> c = 0x3000 \<or> c = 0xFEFF"

definition trim :: "jsstring \<Rightarrow> jsstring" where
  "trim s =
     (let strip = dropWhile (\<lambda>c. isWhiteSpace c \<or> isLineTerminator c)
      in rev (strip (rev (strip s))))"

text \<open>
  Template literals interpolate numbers through \<^verbatim>\<open>Number.prototype.toString\<close>; the
  numbers interpolated by the source are non-negative integers.
\<close>

fun toString :: "nat \<Rightarrow> jsstring" where
  "toString n =
     (if n < 10 then [of_nat (48 + n)]
      else toString (n div 10) @ [of_nat (48 + n mod 10)])"

declare toString.simps [simp del]

text \<open>
  \<^verbatim>\<open>(delayMs / 1000).toFixed(0)\<close>: the quotient rounded to the nearest integer, the
  larger one on a tie.
\<close>

definition toFixed0_div1000 :: "nat \<Rightarrow> jsstring" where
  "toFixed0_div1000 d = toString ((d + 500) div 1000)"

subsection \<open>Regular expressions\<close>

text \<open>
  The three regular expressions of the source use literal characters, \<^verbatim>\<open>.\<close>, \<^verbatim>\<open>?\<close>,
  \<^verbatim>\<open>\b\<close> and a top-level alternation, all under the \<^verbatim>\<open>i\<close> flag and without the
  \<^verbatim>\<open>g\<close>, \<^verbatim>\<open>y\<close> or \<^verbatim>\<open>u\<close> flags, so that \<^verbatim>\<open>test\<close> is stateless and searches for a
  match starting at any position.
\<close>

datatype rx = Lit code_unit | Dot | Opt rx | WordBoundary

type_synonym regex = "rx list list"

text \<open>
  Canonicalize of the \<^verbatim>\<open>i\<close> flag (no \<^verbatim>\<open>u\<close> flag) maps a code unit to its upper case,
  but never maps a code unit of 128 or more to one below 128. Every literal of the
  patterns is ASCII, so a code unit matches a literal exactly when they agree up to the
  case of the ASCII letters; the upper case of the ASCII letters is all that is needed.
\<close>

definition canonicalize :: "code_unit \<Rightarrow> code_unit" where
  "canonicalize c = (if 0x61 \<le> c \<and> c \<le> 0x7A then c - 0x20 else c)"

definition isWordChar :: "code_unit option \<Rightarrow> bool" where
  "isWordChar p =
     (case p of
        None \<Rightarrow> False
      | Some c \<Rightarrow> (0x61 \<le> c \<and> c \<le> 0x7A) \<or> (0x41 \<le> c \<and> c \<le> 0x5A) \<or>
                  (0x30 \<le> c \<and> c \<le> 0x39) \<or> c = 0x5F)"

definition next_unit :: "jsstring \<Rightarrow> code_unit option" where
  "next_unit s = (case s of [] \<Rightarrow> None | c # _ \<Rightarrow> Some c)"

text \<open>
  \<open>match_here rs p s\<close>: the sequence \<open>rs\<close> matches a prefix of \<open>s\<close>, where \<open>p\<close> is the
  code unit just before \<open>s\<close> in the whole input (\<open>None\<close> at its start).
\<close>

fun match_here :: "rx list \<Rightarrow> code_unit option \<Rightarrow> jsstring \<Rightarrow> bool" where
  "match_here [] p s = True"
| "match_here (Lit c # rs) p [] = False"
| "match_here (Lit c # rs) p (x # xs) =
     (canonicalize x = canonicalize c \<and> match_here rs (Some x) xs)"
| "match_here (Dot # rs) p [] = False"
| "match_here (Dot # rs) p (x # xs) = (\<not> isLineTerminator x \<and> match_here rs (Some x) xs)"
| "match_here (Opt r # rs) p s = (match_here (r # rs) p s \<or> match_here rs p s)"
| "match_here (WordBoundary # rs) p s =
     (isWordChar p \<noteq> isWordChar (next_unit s) \<and> match_here rs p s)"

fun search :: "regex \<Rightarrow> code_unit option \<Rightarrow> jsstring \<Rightarrow> bool" where
  "search alts p [] = list_ex (\<lambda>alt. match_here alt p []) alts"
| "search alts p (x # xs) =
     (list_ex (\<lambda>alt. match_here alt p (x # xs)) alts \<or> search alts (Some x) xs)"

definition test :: "regex \<Rightarrow> jsstring \<Rightarrow> bool" where
  "test re s = search re None s"

definition lits :: "string \<Rightarrow> rx list" where
  "lits s = map (\<lambda>c. Lit (of_char c)) s"

subsection \<open>Configuration\<close>

definition MAX_RETRIES :: nat where
  "MAX_RETRIES = 3"

definition BASE_DELAY_MS :: nat where
  "BASE_DELAY_MS = 2000"

definition RETRY_CUSTOM_TYPE :: jsstring where
  "RETRY_CUSTOM_TYPE = js ''__retry_trigger''"

text \<open>\<^verbatim>\<open>/\baborted\b/i\<close>\<close>

definition RETRYABLE_PATTERNS :: regex where
  "RETRYABLE_PATTERNS = [[WordBoundary] @ lits ''aborted'' @ [WordBoundary]]"

text \<open>The alternation of line 48, in the order of the source.\<close>

definition BUILTIN_RETRY_PATTERNS :: regex where
  "BUILTIN_RETRY_PATTERNS =
     [lits ''overloaded'',
      lits ''rate'' @ [Opt Dot] @ lits ''limit'',
      lits ''too many requests'',
      lits ''429'',
      lits ''500'',
      lits ''502'',
      lits ''503'',
      lits ''504'',
      lits ''service'' @ [Opt Dot] @ lits ''unavailable'',
      lits ''server error'',
      lits ''internal error'',
      lits ''connection'' @ [Opt Dot] @ lits ''error'',
      lits ''connection'' @ [Opt Dot] @ lits ''refused'',
      lits ''other side closed'',
      lits ''fetch failed'',
      lits ''upstream'' @ [Opt Dot] @ lits ''connect'',
      lits ''reset before headers'',
      lits ''terminated'',
      lits ''retry delay'']"

text \<open>The literal of line 164: \<^verbatim>\<open>/operation aborted|request was aborted/i\<close>.\<close>

definition USER_ABORT_PATTERNS :: regex where
  "USER_ABORT_PATTERNS = [lits ''operation aborted'', lits ''request was aborted'']"

subsection \<open>Data\<close>

datatype event_kind = Retry | Retry_exhausted | Retry_succeeded | Manual_retry

record RetryLogEntry =
  timestamp :: jsstring
  event :: event_kind
  provider :: "jsstring option"
  model :: "jsstring option"
  modelId :: "jsstring option"
  api :: "jsstring option"
  thinkingLevel :: "jsstring option"
  stopReason :: "jsstring option"
  errorMessage :: "jsstring option"
  attempt :: nat
  maxRetries :: nat
  delayMs :: "nat option"
  cwd :: jsstring
  sessionId :: "jsstring option"

text \<open>
  The messages of the host, with the fields the handlers read: \<^verbatim>\<open>role\<close>,
  \<^verbatim>\<open>stopReason\<close> (read of assistant messages only), the optional \<^verbatim>\<open>errorMessage\<close> and
  the \<^verbatim>\<open>customType\<close> of a custom message.
\<close>

record message =
  role :: jsstring
  msg_stopReason :: jsstring
  msg_errorMessage :: "jsstring option"
  customType :: "jsstring option"

record model_info =
  model_provider :: jsstring
  model_name :: jsstring
  model_id :: jsstring
  model_api :: jsstring

text \<open>
  What a handler reads from the host during one call: \<^verbatim>\<open>ctx.model\<close>, \<^verbatim>\<open>ctx.cwd\<close>,
  \<^verbatim>\<open>ctx.sessionManager.getSessionId()\<close>, \<^verbatim>\<open>pi.getThinkingLevel()\<close>,
  \<^verbatim>\<open>new Date().toISOString()\<close>, \<^verbatim>\<open>ctx.isIdle()\<close> and \<^verbatim>\<open>ctx.ui.getEditorText()\<close>.
\<close>

record host =
  ctx_model :: "model_info option"
  ctx_cwd :: jsstring
  ctx_sessionId :: jsstring
  pi_thinkingLevel :: jsstring
  clock :: jsstring
  ctx_isIdle :: bool
  ui_editorText :: jsstring

datatype level = Info | Warning | Error

text \<open>
  The calls a handler makes on the host, in the order it makes them. \<open>LogRetryEvent\<close> is
  the append that \<^verbatim>\<open>logRetryEvent\<close> attempts (a failure of the write is swallowed there);
  \<open>SendMessage customType content display triggerTurn\<close> is \<^verbatim>\<open>pi.sendMessage\<close>; \<open>Wait\<close>
  is the timer awaited at line 235; \<open>IsIdle\<close> and \<open>GetEditorText\<close> record the two
  queries that gate the manual retry.
\<close>

datatype effect =
    LogRetryEvent RetryLogEntry
  | Notify jsstring level
  | SetStatus jsstring "jsstring option"
  | Wait nat
  | SendMessage jsstring jsstring bool bool
  | IsIdle
  | GetEditorText

text \<open>
  The five variables of \<^verbatim>\<open>piRetry\<close> (lines 89 to 98). \<^verbatim>\<open>retryAttempt\<close> and the delays
  are JavaScript numbers that hold small non-negative integers, on which the arithmetic of
  the source (an increment, a decrement and a power of two times 2000) is exact; they are
  natural numbers here.
\<close>

record state =
  retryAttempt :: nat
  lastErrorMessage :: jsstring
  lastStopReason :: jsstring
  lastResponseWasError :: bool
  pendingRetryCleanup :: bool

definition initial :: state where
  "initial =
     \<lparr>retryAttempt = 0, lastErrorMessage = [], lastStopReason = [],
      lastResponseWasError = False, pendingRetryCleanup = False\<rparr>"

text \<open>
  The fields every log record takes from the host, with the fields that differ from
  one call of \<^verbatim>\<open>logRetryEvent\<close> to the next as arguments.
\<close>

definition logEntry ::
  "host \<Rightarrow> event_kind \<Rightarrow> jsstring option \<Rightarrow> jsstring option \<Rightarrow> nat \<Rightarrow> nat \<Rightarrow> nat option
     \<Rightarrow> RetryLogEntry" where
  "logEntry h ev sr em a mr d =
     \<lparr>timestamp = clock h,
      event = ev,
      provider = map_option model_provider (ctx_model h),
      model = map_option model_name (ctx_model h),
      modelId = map_option model_id (ctx_model h),
      api = map_option model_api (ctx_model h),
      thinkingLevel = Some (pi_thinkingLevel h),
      stopReason = sr,
      errorMessage = em,
      attempt = a,
      maxRetries = mr,
      delayMs = d,
      cwd = ctx_cwd h,
      sessionId = Some (ctx_sessionId h)\<rparr>"

subsection \<open>The handlers\<close>

text \<open>\<^verbatim>\<open>triggerRetry\<close> (lines 331 to 341): the flag is set, then the message is sent.\<close>

definition triggerRetry :: "state \<Rightarrow> state \<times> effect list" where
  "triggerRetry s =
     (s\<lparr>pendingRetryCleanup := True\<rparr>,
      [SendMessage RETRY_CUSTOM_TYPE (js ''Retrying.'') False True])"

text \<open>\<^verbatim>\<open>turn_end\<close> (lines 103 to 137).\<close>

definition turn_end :: "state \<Rightarrow> host \<Rightarrow> message \<Rightarrow> state \<times> effect list" where
  "turn_end s h msg =
     (if role msg = js ''assistant'' \<and> msg_stopReason msg \<noteq> js ''error''
         \<and> msg_stopReason msg \<noteq> js ''aborted''
      then
        let s1 = s\<lparr>lastResponseWasError := False\<rparr> in
        if retryAttempt s1 > 0 then
          (s1\<lparr>retryAttempt := 0, lastErrorMessage := [], lastStopReason := []\<rparr>,
           [LogRetryEvent
              (logEntry h Retry_succeeded (Some (lastStopReason s1))
                 (Some (lastErrorMessage s1)) (retryAttempt s1) MAX_RETRIES None),
            Notify (js ''Retry succeeded on attempt '' @ toString (retryAttempt s1) @ js ''.'')
              Info,
            SetStatus (js ''pi-retry'') None])
        else (s1, [])
      else (s, []))"

text \<open>The loop of lines 145 to 150: \<open>scan ms (Suc i)\<close> looks at index \<open>i\<close>, then below.\<close>

fun scan :: "message list \<Rightarrow> nat \<Rightarrow> message option" where
  "scan ms 0 = None"
| "scan ms (Suc i) = (if role (ms ! i) = js ''assistant'' then Some (ms ! i) else scan ms i)"

definition findLastAssistant :: "message list \<Rightarrow> message option" where
  "findLastAssistant ms = scan ms (length ms)"

text \<open>Line 154: \<^verbatim>\<open>lastAssistant.errorMessage || ""\<close>.\<close>

definition errorText :: "message \<Rightarrow> jsstring" where
  "errorText m = (case msg_errorMessage m of None \<Rightarrow> [] | Some e \<Rightarrow> if e = [] then [] else e)"

text \<open>
  \<^verbatim>\<open>agent_end\<close> (lines 142 to 239). The handler suspends once, at the timer of line 235:
  \<open>agent_end_decide\<close> is the handler up to there (it returns the delay when it reaches
  the timer), \<open>agent_end_resume\<close> is what runs when the timer fires, and \<open>agent_end\<close> is
  the handler run from its start to its end.
\<close>

definition agent_end_decide ::
  "state \<Rightarrow> host \<Rightarrow> message list \<Rightarrow> state \<times> effect list \<times> nat option" where
  "agent_end_decide s h messages =
     (case findLastAssistant messages of
        None \<Rightarrow> (s, [], None)
      | Some lastAssistant \<Rightarrow>
          let stopReason = msg_stopReason lastAssistant;
              errorMessage = errorText lastAssistant;
              s1 = (if stopReason = js ''error'' \<or> stopReason = js ''aborted''
                    then s\<lparr>lastResponseWasError := True\<rparr> else s)
          in
          if stopReason = js ''aborted'' \<and> test USER_ABORT_PATTERNS errorMessage
          then (s1, [], None)
          else if stopReason \<noteq> js ''error'' \<and> stopReason \<noteq> js ''aborted''
          then (s1, [], None)
          else if test BUILTIN_RETRY_PATTERNS errorMessage then (s1, [], None)
          else if \<not> test RETRYABLE_PATTERNS errorMessage then (s1, [], None)
          else
            let s2 = s1\<lparr>retryAttempt := retryAttempt s1 + 1,
                        lastErrorMessage := errorMessage,
                        lastStopReason := stopReason\<rparr>
            in
            if retryAttempt s2 > MAX_RETRIES then
              (s2\<lparr>retryAttempt := 0, lastErrorMessage := [], lastStopReason := []\<rparr>,
               [LogRetryEvent
                  (logEntry h Retry_exhausted (Some stopReason) (Some errorMessage)
                     (retryAttempt s2 - 1) MAX_RETRIES None),
                Notify (js ''Stream error persisted after '' @ toString MAX_RETRIES
                          @ js '' retries: '' @ errorMessage) Error,
                SetStatus (js ''pi-retry'') None],
               None)
            else
              let delay = BASE_DELAY_MS * 2 ^ (retryAttempt s2 - 1) in
              (s2,
               [LogRetryEvent
                  (logEntry h Retry (Some stopReason) (Some errorMessage)
                     (retryAttempt s2) MAX_RETRIES (Some delay)),
                SetStatus (js ''pi-retry'')
                  (Some (js ''Stream error '' @ [0x22] @ errorMessage @ [0x22]
                         @ js '', retrying ('' @ toString (retryAttempt s2) @ js ''/''
                         @ toString MAX_RETRIES @ js '') in '' @ toFixed0_div1000 delay
                         @ js ''s'' @ [0x2026]))],
               Some delay))"

definition agent_end_resume :: "state \<Rightarrow> state \<times> effect list" where
  "agent_end_resume s =
     (let (s', es) = triggerRetry s in (s', SetStatus (js ''pi-retry'') None # es))"

definition agent_end :: "state \<Rightarrow> host \<Rightarrow> message list \<Rightarrow> state \<times> effect list" where
  "agent_end s h messages =
     (case agent_end_decide s h messages of
        (s1, es, None) \<Rightarrow> (s1, es)
      | (s1, es, Some d) \<Rightarrow>
          let (s2, es2) = agent_end_resume s1 in (s2, es @ Wait d # es2))"

text \<open>The handler of the \<^verbatim>\<open>retry\<close> command (lines 244 to 274).\<close>

definition retry_command :: "state \<Rightarrow> host \<Rightarrow> state \<times> effect list" where
  "retry_command s h =
     (if \<not> ctx_isIdle h then
        (s, [IsIdle, Notify (js ''Agent is still running.'') Warning])
      else if \<not> lastResponseWasError s then
        (s, [IsIdle,
             Notify (js ''Nothing to retry '' @ [0x2014]
                       @ js '' last response completed successfully.'') Warning])
      else
        let (s', es) = triggerRetry s in
        (s', [IsIdle, LogRetryEvent (logEntry h Manual_retry None None 1 1 None)] @ es))"

text \<open>
  The interceptor registered on \<^verbatim>\<open>session_start\<close> (lines 283 to 306). \<^verbatim>\<open>matchesKey\<close>
  belongs to the terminal library and is a parameter. The result is \<open>None\<close> for
  \<^verbatim>\<open>undefined\<close> and \<open>Some True\<close> for \<^verbatim>\<open>{ consume: true }\<close>.
\<close>

definition onTerminalInput ::
  "(jsstring \<Rightarrow> jsstring \<Rightarrow> bool) \<Rightarrow> state \<Rightarrow> host \<Rightarrow> jsstring
     \<Rightarrow> state \<times> effect list \<times> bool option" where
  "onTerminalInput matchesKey s h data =
     (if \<not> matchesKey data (js ''enter'') then (s, [], None)
      else if \<not> lastResponseWasError s then (s, [], None)
      else if \<not> ctx_isIdle h then (s, [IsIdle], None)
      else if trim (ui_editorText h) \<noteq> [] then (s, [IsIdle, GetEditorText], None)
      else
        let (s', es) = triggerRetry s in
        (s',
         [IsIdle, GetEditorText, LogRetryEvent (logEntry h Manual_retry None None 1 1 None)]
           @ es,
         Some True))"

text \<open>
  The \<^verbatim>\<open>context\<close> handler (lines 314 to 326): \<open>None\<close> when it returns nothing, the
  replacement list otherwise.
\<close>

definition isRetryTrigger :: "message \<Rightarrow> bool" where
  "isRetryTrigger msg \<longleftrightarrow> role msg = js ''custom'' \<and> customType msg = Some RETRY_CUSTOM_TYPE"

definition context_handler :: "state \<Rightarrow> message list \<Rightarrow> state \<times> message list option" where
  "context_handler s messages =
     (if \<not> pendingRetryCleanup s then (s, None)
      else
        (s\<lparr>pendingRetryCleanup := False\<rparr>,
         Some (filter (\<lambda>msg. if isRetryTrigger msg then False else True) messages)))"

subsection \<open>Reading a handler's calls\<close>

fun logged :: "effect list \<Rightarrow> RetryLogEntry list" where
  "logged [] = []"
| "logged (LogRetryEvent e # es) = e # logged es"
| "logged (_ # es) = logged es"

fun waits :: "effect list \<Rightarrow> nat list" where
  "waits [] = []"
| "waits (Wait d # es) = d # waits es"
| "waits (_ # es) = waits es"

fun sent :: "effect list \<Rightarrow> (jsstring \<times> jsstring \<times> bool \<times> bool) list" where
  "sent [] = []"
| "sent (SendMessage t c d g # es) = (t, c, d, g) # sent es"
| "sent (_ # es) = sent es"

fun notified :: "effect list \<Rightarrow> (jsstring \<times> level) list" where
  "notified [] = []"
| "notified (Notify t l # es) = (t, l) # notified es"
| "notified (_ # es) = notified es"

text \<open>
  The failures that reach line 177: the stop reason is \<^verbatim>\<open>error\<close> or \<^verbatim>\<open>aborted\<close>, the
  text is not a user cancellation of an aborted turn, it is not covered by the host's
  own retry, and it matches \<open>RETRYABLE_PATTERNS\<close>.
\<close>

definition autoRetryable :: "message \<Rightarrow> bool" where
  "autoRetryable m \<longleftrightarrow>
     (msg_stopReason m = js ''error'' \<or> msg_stopReason m = js ''aborted'') \<and>
     \<not> (msg_stopReason m = js ''aborted'' \<and> test USER_ABORT_PATTERNS (errorText m)) \<and>
     \<not> test BUILTIN_RETRY_PATTERNS (errorText m) \<and>
     test RETRYABLE_PATTERNS (errorText m)"

text \<open>How many messages a pass of the \<^verbatim>\<open>context\<close> handler took out of the list.\<close>

definition removedCount :: "message list \<Rightarrow> message list option \<Rightarrow> nat" where
  "removedCount messages r =
     (case r of None \<Rightarrow> 0 | Some cleaned \<Rightarrow> length messages - length cleaned)"

subsection \<open>Runs of the extension\<close>

text \<open>
  The events the host delivers. \<open>Agent_end\<close> is the handler run without interruption;
  \<open>Agent_end_decide\<close> and \<open>Agent_end_resume\<close> are its two halves, so that a run can
  place other events between them, while the timer is pending.
\<close>

datatype event =
    Turn_end host message
  | Agent_end host "message list"
  | Agent_end_decide host "message list"
  | Agent_end_resume
  | Retry_command host
  | Terminal_input host jsstring
  | Context "message list"

fun fire :: "(jsstring \<Rightarrow> jsstring \<Rightarrow> bool) \<Rightarrow> state \<Rightarrow> event \<Rightarrow> state" where
  "fire mk s (Turn_end h m) = fst (turn_end s h m)"
| "fire mk s (Agent_end h ms) = fst (agent_end s h ms)"
| "fire mk s (Agent_end_decide h ms) = fst (agent_end_decide s h ms)"
| "fire mk s Agent_end_resume = fst (agent_end_resume s)"
| "fire mk s (Retry_command h) = fst (retry_command s h)"
| "fire mk s (Terminal_input h d) = fst (onTerminalInput mk s h d)"
| "fire mk s (Context ms) = fst (context_handler s ms)"

definition run :: "(jsstring \<Rightarrow> jsstring \<Rightarrow> bool) \<Rightarrow> event list \<Rightarrow> state" where
  "run mk evs = foldl (fire mk) initial evs"

text \<open>
  The interceptor with its checks in the order the specification gives them: the key,
  then the editor text, then the gate (agent idle and last turn failed). It is compared
  with \<open>onTerminalInput\<close> below.
\<close>

definition onTerminalInput_as_specified ::
  "(jsstring \<Rightarrow> jsstring \<Rightarrow> bool) \<Rightarrow> state \<Rightarrow> host \<Rightarrow> jsstring
     \<Rightarrow> state \<times> effect list \<times> bool option" where
  "onTerminalInput_as_specified matchesKey s h data =
     (if \<not> matchesKey data (js ''enter'') then (s, [], None)
      else if trim (ui_editorText h) \<noteq> [] then (s, [GetEditorText], None)
      else if \<not> ctx_isIdle h then (s, [GetEditorText, IsIdle], None)
      else if \<not> lastResponseWasError s then (s, [GetEditorText, IsIdle], None)
      else
        let (s', es) = triggerRetry s in
        (s',
         [GetEditorText, IsIdle, LogRetryEvent (logEntry h Manual_retry None None 1 1 None)]
           @ es,
         Some True))"

subsection \<open>Sample inputs\<close>

definition assistantMessage :: "string \<Rightarrow> string \<Rightarrow> message" where
  "assistantMessage sr em =
     \<lparr>role = js ''assistant'', msg_stopReason = js sr, msg_errorMessage = Some (js em),
      customType = None\<rparr>"

definition userMessage :: message where
  "userMessage =
     \<lparr>role = js ''user'', msg_stopReason = [], msg_errorMessage = None, customType = None\<rparr>"

definition triggerMessage :: message where
  "triggerMessage =
     \<lparr>role = js ''custom'', msg_stopReason = [], msg_errorMessage = None,
      customType = Some (js ''__retry_trigger'')\<rparr>"

definition sampleHost :: "bool \<Rightarrow> string \<Rightarrow> host" where
  "sampleHost idle text =
     \<lparr>ctx_model = None, ctx_cwd = js ''/work'', ctx_sessionId = js ''s1'',
      pi_thinkingLevel = js ''off'', clock = js ''2025-01-01T00:00:00.000Z'',
      ctx_isIdle = idle, ui_editorText = js text\<rparr>"

text \<open>A \<^verbatim>\<open>matchesKey\<close> that takes a single carriage return for the key \<^verbatim>\<open>enter\<close>.\<close>

definition sampleMatchesKey :: "jsstring \<Rightarrow> jsstring \<Rightarrow> bool" where
  "sampleMatchesKey data key \<longleftrightarrow> data = [0x0D] \<and> key = js ''enter''"

section \<open>Properties\<close>

subsection \<open>Strings, the outcomes of a failed run and the bound on the counter\<close>

lemma unat_of_char: "unat (of_char c :: 16 word) = of_char c"
proof -
  have "(of_char c :: 16 word) = of_nat (of_char c)"
    by (simp add: of_nat_of_char)
  moreover have "(of_char c :: nat) < 2 ^ 16"
    by (rule less_trans [OF nat_of_char_less_256]) simp
  ultimately show ?thesis
    by (simp add: unat_of_nat take_bit_nat_eq_self)
qed

lemma of_char_word_eq_iff: "(of_char c :: 16 word) = of_char d \<longleftrightarrow> c = d"
proof
  assume "(of_char c :: 16 word) = of_char d"
  then have "unat (of_char c :: 16 word) = unat (of_char d :: 16 word)"
    by simp
  then show "c = d"
    by (simp add: unat_of_char)
qed simp

lemma js_eq_iff: "js a = js b \<longleftrightarrow> a = b"
  unfolding js_def by (rule inj_map_eq_map) (simp add: inj_on_def of_char_word_eq_iff)

lemma js_append: "js a @ js b = js (a @ b)"
  by (simp add: js_def)

lemma toString_MAX_RETRIES: "toString MAX_RETRIES = js ''3''"
  by (simp add: MAX_RETRIES_def toString.simps js_def)

lemma agent_end_retry:
  assumes "findLastAssistant messages = Some la"
      and "autoRetryable la"
      and "retryAttempt s < MAX_RETRIES"
  shows "agent_end s h messages =
     (s\<lparr>retryAttempt := retryAttempt s + 1, lastErrorMessage := errorText la,
        lastStopReason := msg_stopReason la, lastResponseWasError := True,
        pendingRetryCleanup := True\<rparr>,
      [LogRetryEvent
         (logEntry h Retry (Some (msg_stopReason la)) (Some (errorText la))
            (retryAttempt s + 1) MAX_RETRIES (Some (BASE_DELAY_MS * 2 ^ retryAttempt s))),
       SetStatus (js ''pi-retry'')
         (Some (js ''Stream error '' @ [0x22] @ errorText la @ [0x22]
                @ js '', retrying ('' @ toString (retryAttempt s + 1) @ js ''/''
                @ toString MAX_RETRIES @ js '') in ''
                @ toFixed0_div1000 (BASE_DELAY_MS * 2 ^ retryAttempt s)
                @ js ''s'' @ [0x2026])),
       Wait (BASE_DELAY_MS * 2 ^ retryAttempt s),
       SetStatus (js ''pi-retry'') None,
       SendMessage RETRY_CUSTOM_TYPE (js ''Retrying.'') False True])"
  using assms
  unfolding agent_end_def agent_end_decide_def agent_end_resume_def triggerRetry_def
    autoRetryable_def Let_def
  by auto

lemma agent_end_exhausted:
  assumes "findLastAssistant messages = Some la"
      and "autoRetryable la"
      and "\<not> retryAttempt s < MAX_RETRIES"
  shows "agent_end s h messages =
     (s\<lparr>retryAttempt := 0, lastErrorMessage := [], lastStopReason := [],
        lastResponseWasError := True\<rparr>,
      [LogRetryEvent
         (logEntry h Retry_exhausted (Some (msg_stopReason la)) (Some (errorText la))
            (retryAttempt s) MAX_RETRIES None),
       Notify (js ''Stream error persisted after '' @ toString MAX_RETRIES
                 @ js '' retries: '' @ errorText la) Error,
       SetStatus (js ''pi-retry'') None])"
  using assms
  unfolding agent_end_def agent_end_decide_def autoRetryable_def Let_def
  by auto

lemma agent_end_skipped:
  assumes "findLastAssistant messages = Some la"
      and "msg_stopReason la = js ''error'' \<or> msg_stopReason la = js ''aborted''"
      and "\<not> autoRetryable la"
  shows "agent_end s h messages = (s\<lparr>lastResponseWasError := True\<rparr>, [])"
  using assms
  unfolding agent_end_def agent_end_decide_def autoRetryable_def Let_def
  by auto


lemma sample_found:
  "findLastAssistant [assistantMessage sr em] = Some (assistantMessage sr em)"
  by (simp add: findLastAssistant_def assistantMessage_def)

lemma sample_fields:
  "msg_stopReason (assistantMessage sr em) = js sr"
  "errorText (assistantMessage sr em) = js em"
  "role (assistantMessage sr em) = js ''assistant''"
  by (simp_all add: assistantMessage_def errorText_def)

lemma upstream_aborted_retryable:
  "autoRetryable (assistantMessage ''aborted'' ''upstream aborted connection'')"
  by code_simp

lemma agent_end_decide_attempt:
  "retryAttempt (fst (agent_end_decide s h messages)) =
     (case findLastAssistant messages of
        None \<Rightarrow> retryAttempt s
      | Some la \<Rightarrow>
          if autoRetryable la
          then (if retryAttempt s < MAX_RETRIES then retryAttempt s + 1 else 0)
          else retryAttempt s)"
  unfolding agent_end_decide_def autoRetryable_def Let_def
  by (auto split: option.splits)

lemma agent_end_attempt:
  "retryAttempt (fst (agent_end s h messages)) =
     retryAttempt (fst (agent_end_decide s h messages))"
  unfolding agent_end_def agent_end_resume_def triggerRetry_def
  by (auto split: prod.splits option.splits)

lemma fire_attempt_bound:
  assumes "retryAttempt s \<le> MAX_RETRIES"
  shows "retryAttempt (fire mk s ev) \<le> MAX_RETRIES"
proof (cases ev)
  case (Turn_end h m)
  with assms show ?thesis
    by (simp add: turn_end_def Let_def)
next
  case (Agent_end h ms)
  with assms show ?thesis
    by (simp add: agent_end_attempt agent_end_decide_attempt split: option.splits)
next
  case (Agent_end_decide h ms)
  with assms show ?thesis
    by (simp add: agent_end_decide_attempt split: option.splits)
next
  case Agent_end_resume
  with assms show ?thesis
    by (simp add: agent_end_resume_def triggerRetry_def)
next
  case (Retry_command h)
  with assms show ?thesis
    by (simp add: retry_command_def triggerRetry_def)
next
  case (Terminal_input h d)
  with assms show ?thesis
    by (simp add: onTerminalInput_def triggerRetry_def)
next
  case (Context ms)
  with assms show ?thesis
    by (simp add: context_handler_def)
qed

lemma run_snoc: "run mk (evs @ [ev]) = fire mk (run mk evs) ev"
  by (simp add: run_def)

lemma run_attempt_bound: "retryAttempt (run mk evs) \<le> MAX_RETRIES"
proof (induction evs rule: rev_induct)
  case Nil
  show ?case
    by (simp add: run_def initial_def)
next
  case (snoc ev evs)
  then show ?case
    by (simp add: run_snoc fire_attempt_bound)
qed

subsection \<open>The claims\<close>

text \<open>
  C1. When the last assistant message of a run ended in \<^verbatim>\<open>error\<close> or \<^verbatim>\<open>aborted\<close> and
  its error text matches \<open>BUILTIN_RETRY_PATTERNS\<close>, the \<^verbatim>\<open>agent_end\<close> handler only records
  that the last response failed: \<open>retryAttempt\<close> and the stored error keep their values,
  nothing is logged, no timer is started and no trigger is sent. Nothing is assumed about
  \<open>RETRYABLE_PATTERNS\<close>, so this holds as well when the text also contains \<^verbatim>\<open>aborted\<close>.
\<close>

theorem C1_deferred_takes_precedence:
  assumes "findLastAssistant messages = Some la"
      and "msg_stopReason la = js ''error'' \<or> msg_stopReason la = js ''aborted''"
      and "test BUILTIN_RETRY_PATTERNS (errorText la)"
  shows "agent_end s h messages = (s\<lparr>lastResponseWasError := True\<rparr>, [])"
proof -
  from assms(3) have "\<not> autoRetryable la"
    by (simp add: autoRetryable_def)
  with assms(1,2) show ?thesis
    by (rule agent_end_skipped)
qed

theorem C1_deferred_takes_precedence_witness:
  "test BUILTIN_RETRY_PATTERNS (errorText (assistantMessage ''error'' ''503 upstream aborted'')) \<and>
   test RETRYABLE_PATTERNS (errorText (assistantMessage ''error'' ''503 upstream aborted'')) \<and>
   agent_end initial (sampleHost True '''')
       [userMessage, assistantMessage ''error'' ''503 upstream aborted'', triggerMessage]
     = (initial\<lparr>lastResponseWasError := True\<rparr>, []) \<and>
   test BUILTIN_RETRY_PATTERNS
     (errorText (assistantMessage ''aborted'' ''Rate limit reached, stream aborted'')) \<and>
   test RETRYABLE_PATTERNS
     (errorText (assistantMessage ''aborted'' ''Rate limit reached, stream aborted'')) \<and>
   agent_end (initial\<lparr>retryAttempt := 2\<rparr>) (sampleHost True '''')
       [assistantMessage ''aborted'' ''Rate limit reached, stream aborted'']
     = (initial\<lparr>retryAttempt := 2, lastResponseWasError := True\<rparr>, [])"
proof -
  let ?m = "assistantMessage ''error'' ''503 upstream aborted''"
  let ?n = "assistantMessage ''aborted'' ''Rate limit reached, stream aborted''"
  have found: "findLastAssistant [userMessage, ?m, triggerMessage] = Some ?m"
    by code_simp
  have stop: "msg_stopReason ?m = js ''error'' \<or> msg_stopReason ?m = js ''aborted''"
    by (simp add: sample_fields)
  have builtin: "test BUILTIN_RETRY_PATTERNS (errorText ?m)"
    by code_simp
  have retryable: "test RETRYABLE_PATTERNS (errorText ?m)"
    by code_simp
  have stop': "msg_stopReason ?n = js ''error'' \<or> msg_stopReason ?n = js ''aborted''"
    by (simp add: sample_fields)
  have builtin': "test BUILTIN_RETRY_PATTERNS (errorText ?n)"
    by code_simp
  have retryable': "test RETRYABLE_PATTERNS (errorText ?n)"
    by code_simp
  show ?thesis
    using C1_deferred_takes_precedence [OF found stop builtin]
      C1_deferred_takes_precedence [OF sample_found stop' builtin']
      builtin retryable builtin' retryable'
    by simp
qed

text \<open>
  C2. With \<open>retryAttempt\<close> at \<open>MAX_RETRIES\<close>, one more failure that reaches line 177 ends
  the episode. The handler writes one record: its event is \<^verbatim>\<open>retry_exhausted\<close>, its
  attempt is 3, its ceiling is \<open>MAX_RETRIES\<close>, it carries the stop reason and the error
  text of the failure and no delay. The handler shows one error notification with the
  error text, clears the status line, starts no timer and sends no trigger, and leaves
  \<open>retryAttempt = 0\<close> with the stored error text and stop reason empty. The witness
  reaches that state from the initial one by three such failures.
\<close>

theorem C2_attempt_ceiling:
  assumes "retryAttempt s = MAX_RETRIES"
      and "findLastAssistant messages = Some la"
      and "autoRetryable la"
  shows "agent_end s h messages =
     (s\<lparr>retryAttempt := 0, lastErrorMessage := [], lastStopReason := [],
        lastResponseWasError := True\<rparr>,
      [LogRetryEvent
         (logEntry h Retry_exhausted (Some (msg_stopReason la)) (Some (errorText la)) 3
            MAX_RETRIES None),
       Notify (js ''Stream error persisted after 3 retries: '' @ errorText la) Error,
       SetStatus (js ''pi-retry'') None]) \<and>
     map (\<lambda>e. (event e, attempt e, maxRetries e, stopReason e, errorMessage e, delayMs e))
         (logged (snd (agent_end s h messages)))
       = [(Retry_exhausted, 3, 3, Some (msg_stopReason la), Some (errorText la), None)] \<and>
     map (\<lambda>e. (timestamp e, cwd e, sessionId e)) (logged (snd (agent_end s h messages)))
       = [(clock h, ctx_cwd h, Some (ctx_sessionId h))] \<and>
     notified (snd (agent_end s h messages))
       = [(js ''Stream error persisted after 3 retries: '' @ errorText la, Error)] \<and>
     sent (snd (agent_end s h messages)) = [] \<and>
     waits (snd (agent_end s h messages)) = [] \<and>
     retryAttempt (fst (agent_end s h messages)) = 0 \<and>
     lastErrorMessage (fst (agent_end s h messages)) = [] \<and>
     lastStopReason (fst (agent_end s h messages)) = []"
proof -
  have "\<not> retryAttempt s < MAX_RETRIES"
    using assms(1) by simp
  from agent_end_exhausted [OF assms(2,3) this, of h]
  have whole: "agent_end s h messages =
     (s\<lparr>retryAttempt := 0, lastErrorMessage := [], lastStopReason := [],
        lastResponseWasError := True\<rparr>,
      [LogRetryEvent
         (logEntry h Retry_exhausted (Some (msg_stopReason la)) (Some (errorText la)) 3
            MAX_RETRIES None),
       Notify (js ''Stream error persisted after 3 retries: '' @ errorText la) Error,
       SetStatus (js ''pi-retry'') None])"
    by (simp add: assms(1) toString_MAX_RETRIES js_append) (simp add: MAX_RETRIES_def)
  show ?thesis
    unfolding whole by (simp add: logEntry_def MAX_RETRIES_def)
qed

theorem C2_attempt_ceiling_witness:
  "run sampleMatchesKey
       [Agent_end (sampleHost False '''') [assistantMessage ''aborted'' ''upstream aborted connection''],
        Agent_end (sampleHost False '''') [assistantMessage ''aborted'' ''upstream aborted connection''],
        Agent_end (sampleHost False '''') [assistantMessage ''aborted'' ''upstream aborted connection'']]
     = \<lparr>retryAttempt = 3, lastErrorMessage = js ''upstream aborted connection'',
        lastStopReason = js ''aborted'', lastResponseWasError = True,
        pendingRetryCleanup = True\<rparr> \<and>
   fst (agent_end
     \<lparr>retryAttempt = 3, lastErrorMessage = js ''upstream aborted connection'',
        lastStopReason = js ''aborted'', lastResponseWasError = True,
        pendingRetryCleanup = True\<rparr>
     (sampleHost False '''') [assistantMessage ''aborted'' ''upstream aborted connection''])
   = \<lparr>retryAttempt = 0, lastErrorMessage = [], lastStopReason = [],
       lastResponseWasError = True, pendingRetryCleanup = True\<rparr> \<and>
   map (\<lambda>e. (event e, attempt e, maxRetries e, stopReason e, errorMessage e, delayMs e))
     (logged (snd (agent_end
        \<lparr>retryAttempt = 3, lastErrorMessage = js ''upstream aborted connection'',
           lastStopReason = js ''aborted'', lastResponseWasError = True,
           pendingRetryCleanup = True\<rparr>
        (sampleHost False '''') [assistantMessage ''aborted'' ''upstream aborted connection''])))
   = [(Retry_exhausted, 3, 3, Some (js ''aborted''), Some (js ''upstream aborted connection''),
       None)] \<and>
   notified (snd (agent_end
        \<lparr>retryAttempt = 3, lastErrorMessage = js ''upstream aborted connection'',
           lastStopReason = js ''aborted'', lastResponseWasError = True,
           pendingRetryCleanup = True\<rparr>
        (sampleHost False '''') [assistantMessage ''aborted'' ''upstream aborted connection'']))
   = [(js ''Stream error persisted after 3 retries: upstream aborted connection'', Error)] \<and>
   sent (snd (agent_end
        \<lparr>retryAttempt = 3, lastErrorMessage = js ''upstream aborted connection'',
           lastStopReason = js ''aborted'', lastResponseWasError = True,
           pendingRetryCleanup = True\<rparr>
        (sampleHost False '''') [assistantMessage ''aborted'' ''upstream aborted connection'']))
   = []"
proof -
  let ?m = "assistantMessage ''aborted'' ''upstream aborted connection''"
  let ?h = "sampleHost False ''''"
  let ?s = "\<lparr>retryAttempt = 3, lastErrorMessage = js ''upstream aborted connection'',
        lastStopReason = js ''aborted'', lastResponseWasError = True,
        pendingRetryCleanup = True\<rparr>"
  have reach: "run sampleMatchesKey [Agent_end ?h [?m], Agent_end ?h [?m], Agent_end ?h [?m]] = ?s"
    by (simp add: run_def initial_def agent_end_retry [OF sample_found upstream_aborted_retryable]
        MAX_RETRIES_def sample_fields)
  have three: "retryAttempt ?s = MAX_RETRIES"
    by (simp add: MAX_RETRIES_def)
  note ceiling = C2_attempt_ceiling [OF three sample_found upstream_aborted_retryable, of ?h,
      unfolded sample_fields js_append]
  have state: "fst (agent_end ?s ?h [?m])
      = \<lparr>retryAttempt = 0, lastErrorMessage = [], lastStopReason = [],
         lastResponseWasError = True, pendingRetryCleanup = True\<rparr>"
    using ceiling [THEN conjunct1] by simp
  from reach state ceiling [THEN conjunct2] show ?thesis
    by simp
qed

text \<open>
  C3. When the last assistant message of a run has the stop reason \<^verbatim>\<open>aborted\<close> and its
  error text matches the user-cancellation pattern of line 164, the \<^verbatim>\<open>agent_end\<close> handler
  sets \<open>lastResponseWasError\<close> and returns: \<open>retryAttempt\<close> is unchanged, nothing is logged
  and no trigger is sent. The \<^verbatim>\<open>retry\<close> command, run on the resulting state while the
  agent is idle, does send the trigger.
\<close>

theorem C3_user_abort_not_retried:
  assumes "findLastAssistant messages = Some la"
      and "msg_stopReason la = js ''aborted''"
      and "test USER_ABORT_PATTERNS (errorText la)"
  shows "agent_end s h messages = (s\<lparr>lastResponseWasError := True\<rparr>, []) \<and>
         retryAttempt (fst (agent_end s h messages)) = retryAttempt s \<and>
         lastResponseWasError (fst (agent_end s h messages)) \<and>
         sent (snd (retry_command (fst (agent_end s h messages)) (h'\<lparr>ctx_isIdle := True\<rparr>)))
           = [(RETRY_CUSTOM_TYPE, js ''Retrying.'', False, True)]"
proof -
  from assms(2,3) have "\<not> autoRetryable la"
    by (simp add: autoRetryable_def)
  with assms(1,2) have "agent_end s h messages = (s\<lparr>lastResponseWasError := True\<rparr>, [])"
    by (simp add: agent_end_skipped)
  then show ?thesis
    by (simp add: retry_command_def triggerRetry_def)
qed

theorem C3_user_abort_not_retried_witness:
  "test USER_ABORT_PATTERNS (errorText (assistantMessage ''aborted'' ''Request was aborted.'')) \<and>
   agent_end initial (sampleHost True '''')
       [userMessage, assistantMessage ''aborted'' ''Request was aborted.'']
     = (initial\<lparr>lastResponseWasError := True\<rparr>, []) \<and>
   sent (snd (retry_command
            (fst (agent_end initial (sampleHost True '''')
                    [userMessage, assistantMessage ''aborted'' ''Request was aborted.'']))
            (sampleHost True '''')))
     = [(js ''__retry_trigger'', js ''Retrying.'', False, True)]"
proof -
  let ?m = "assistantMessage ''aborted'' ''Request was aborted.''"
  have found: "findLastAssistant [userMessage, ?m] = Some ?m"
    by code_simp
  have stop: "msg_stopReason ?m = js ''aborted''"
    by (simp add: sample_fields)
  have cancelled: "test USER_ABORT_PATTERNS (errorText ?m)"
    by code_simp
  have idle: "(sampleHost True '''')\<lparr>ctx_isIdle := True\<rparr> = sampleHost True ''''"
    by (simp add: sampleHost_def)
  show ?thesis
    using C3_user_abort_not_retried
      [OF found stop cancelled, of initial "sampleHost True ''''" "sampleHost True ''''"]
      cancelled
    by (auto simp add: idle RETRY_CUSTOM_TYPE_def)
qed

text \<open>
  C4, as the code has it. \<^verbatim>\<open>triggerRetry\<close> sets \<open>pendingRetryCleanup\<close> and sends the marker.
  The next pass of the \<^verbatim>\<open>context\<close> handler clears the flag and returns the list without
  its messages of role \<^verbatim>\<open>custom\<close> and custom type \<open>RETRY_CUSTOM_TYPE\<close>, wherever they
  stand and however many there are: the number of messages it removes is the number of
  markers in the list, which is one exactly when the list holds one marker. The others
  keep their order. A pass that follows with no trigger in between returns nothing and
  leaves the state as it is.
\<close>

theorem C4_context_scrub:
  "triggerRetry s =
     (s\<lparr>pendingRetryCleanup := True\<rparr>,
      [SendMessage RETRY_CUSTOM_TYPE (js ''Retrying.'') False True]) \<and>
   context_handler (fst (triggerRetry s)) messages =
     (s\<lparr>pendingRetryCleanup := False\<rparr>, Some (filter (\<lambda>m. \<not> isRetryTrigger m) messages)) \<and>
   removedCount messages (snd (context_handler (fst (triggerRetry s)) messages)) =
     length (filter isRetryTrigger messages) \<and>
   context_handler (fst (context_handler (fst (triggerRetry s)) messages)) messages' =
     (s\<lparr>pendingRetryCleanup := False\<rparr>, None)"
proof -
  have "length messages - length (filter (\<lambda>m. \<not> isRetryTrigger m) messages)
      = length (filter isRetryTrigger messages)"
    using sum_length_filter_compl [of isRetryTrigger messages] by simp
  then show ?thesis
    by (simp add: triggerRetry_def context_handler_def removedCount_def)
qed

text \<open>
  C4 as the specification states it fails on a list that holds two markers (the marker of
  an earlier retry is still in the history): the pass removes both.
\<close>

theorem C4_two_markers_counterexample:
  "snd (context_handler (fst (triggerRetry initial))
          [triggerMessage, userMessage, triggerMessage]) = Some [userMessage] \<and>
   removedCount [triggerMessage, userMessage, triggerMessage]
     (snd (context_handler (fst (triggerRetry initial))
             [triggerMessage, userMessage, triggerMessage])) = 2"
  by (simp add: triggerRetry_def context_handler_def removedCount_def isRetryTrigger_def
      triggerMessage_def userMessage_def RETRY_CUSTOM_TYPE_def js_eq_iff)

theorem C4_context_scrub_witness:
  "context_handler (fst (triggerRetry initial))
       [userMessage, assistantMessage ''aborted'' ''upstream aborted connection'', triggerMessage]
     = (initial, Some [userMessage, assistantMessage ''aborted'' ''upstream aborted connection'']) \<and>
   removedCount
       [userMessage, assistantMessage ''aborted'' ''upstream aborted connection'', triggerMessage]
       (snd (context_handler (fst (triggerRetry initial))
          [userMessage, assistantMessage ''aborted'' ''upstream aborted connection'',
           triggerMessage])) = 1 \<and>
   context_handler initial
       [userMessage, assistantMessage ''aborted'' ''upstream aborted connection'', triggerMessage]
     = (initial, None)"
proof -
  let ?ms = "[userMessage, assistantMessage ''aborted'' ''upstream aborted connection'',
              triggerMessage]"
  have markers: "filter isRetryTrigger ?ms = [triggerMessage]"
    by (simp add: isRetryTrigger_def triggerMessage_def userMessage_def assistantMessage_def
        RETRY_CUSTOM_TYPE_def js_eq_iff)
  have others: "filter (\<lambda>m. \<not> isRetryTrigger m) ?ms
      = [userMessage, assistantMessage ''aborted'' ''upstream aborted connection'']"
    by (simp add: isRetryTrigger_def triggerMessage_def userMessage_def assistantMessage_def
        RETRY_CUSTOM_TYPE_def js_eq_iff)
  have rest: "initial\<lparr>pendingRetryCleanup := False\<rparr> = initial"
    by (simp add: initial_def)
  note scrub = C4_context_scrub [of initial ?ms ?ms, unfolded markers others rest]
  from scrub show ?thesis
    by auto
qed

text \<open>
  C5, as the code has it. The interceptor checks, in this order: the key; whether the
  last response failed; whether the agent is idle; whether the editor text is empty after
  trimming. So the agent's idle state is asked for only when the key is Enter and the last
  response failed, and the editor text is read only when, besides, the agent is idle. The
  result is \<^verbatim>\<open>{ consume: true }\<close> exactly when all four checks pass; then one record is
  logged, whose event is \<^verbatim>\<open>manual_retry\<close> and whose attempt and ceiling are 1, with no
  stop reason, error text or delay, and the trigger is sent. Otherwise the handler
  returns nothing, logs nothing, sends nothing and leaves the state as it is.
\<close>

theorem C5_interceptor_order:
  "(snd (snd (onTerminalInput mk s h data)) = Some True \<longleftrightarrow>
      mk data (js ''enter'') \<and> lastResponseWasError s \<and> ctx_isIdle h
        \<and> trim (ui_editorText h) = []) \<and>
   (snd (snd (onTerminalInput mk s h data)) = None \<longleftrightarrow>
      \<not> (mk data (js ''enter'') \<and> lastResponseWasError s \<and> ctx_isIdle h
        \<and> trim (ui_editorText h) = [])) \<and>
   (IsIdle \<in> set (fst (snd (onTerminalInput mk s h data))) \<longleftrightarrow>
      mk data (js ''enter'') \<and> lastResponseWasError s) \<and>
   (GetEditorText \<in> set (fst (snd (onTerminalInput mk s h data))) \<longleftrightarrow>
      mk data (js ''enter'') \<and> lastResponseWasError s \<and> ctx_isIdle h) \<and>
   (if mk data (js ''enter'') \<and> lastResponseWasError s \<and> ctx_isIdle h
         \<and> trim (ui_editorText h) = []
    then onTerminalInput mk s h data =
           (s\<lparr>pendingRetryCleanup := True\<rparr>,
            [IsIdle, GetEditorText,
             LogRetryEvent (logEntry h Manual_retry None None 1 1 None),
             SendMessage RETRY_CUSTOM_TYPE (js ''Retrying.'') False True],
            Some True) \<and>
         map (\<lambda>e. (event e, attempt e, maxRetries e, stopReason e, errorMessage e, delayMs e))
             (logged (fst (snd (onTerminalInput mk s h data))))
           = [(Manual_retry, 1, 1, None, None, None)] \<and>
         map (\<lambda>e. (timestamp e, cwd e, sessionId e))
             (logged (fst (snd (onTerminalInput mk s h data))))
           = [(clock h, ctx_cwd h, Some (ctx_sessionId h))] \<and>
         sent (fst (snd (onTerminalInput mk s h data)))
           = [(RETRY_CUSTOM_TYPE, js ''Retrying.'', False, True)]
    else fst (onTerminalInput mk s h data) = s \<and>
         logged (fst (snd (onTerminalInput mk s h data))) = [] \<and>
         sent (fst (snd (onTerminalInput mk s h data))) = [])"
  by (simp add: onTerminalInput_def triggerRetry_def logEntry_def)

theorem C5_interceptor_order_witness:
  "onTerminalInput sampleMatchesKey (initial\<lparr>lastResponseWasError := True\<rparr>)
       (sampleHost True ''  '') [0x0D]
     = (initial\<lparr>lastResponseWasError := True, pendingRetryCleanup := True\<rparr>,
        [IsIdle, GetEditorText,
         LogRetryEvent (logEntry (sampleHost True ''  '') Manual_retry None None 1 1 None),
         SendMessage RETRY_CUSTOM_TYPE (js ''Retrying.'') False True],
        Some True) \<and>
   map (\<lambda>e. (event e, attempt e, maxRetries e, stopReason e, errorMessage e, delayMs e))
     (logged (fst (snd (onTerminalInput sampleMatchesKey (initial\<lparr>lastResponseWasError := True\<rparr>)
                          (sampleHost True ''  '') [0x0D]))))
     = [(Manual_retry, 1, 1, None, None, None)] \<and>
   sent (fst (snd (onTerminalInput sampleMatchesKey (initial\<lparr>lastResponseWasError := True\<rparr>)
                     (sampleHost True ''  '') [0x0D])))
     = [(js ''__retry_trigger'', js ''Retrying.'', False, True)] \<and>
   snd (snd (onTerminalInput sampleMatchesKey initial (sampleHost True ''  '') [0x0D])) = None \<and>
   IsIdle \<notin> set (fst (snd (onTerminalInput sampleMatchesKey initial (sampleHost True ''  '')
                               [0x0D]))) \<and>
   logged (fst (snd (onTerminalInput sampleMatchesKey initial (sampleHost True ''  '') [0x0D])))
     = []"
proof -
  have key: "sampleMatchesKey [0x0D] (js ''enter'')"
    by (simp add: sampleMatchesKey_def)
  have blank: "trim (ui_editorText (sampleHost True ''  '')) = []"
    by code_simp
  have idle: "ctx_isIdle (sampleHost True ''  '')"
    by (simp add: sampleHost_def)
  have failed: "lastResponseWasError (initial\<lparr>lastResponseWasError := True\<rparr>)"
    by simp
  have succeeded: "\<not> lastResponseWasError initial"
    by (simp add: initial_def)
  note passing = C5_interceptor_order [of sampleMatchesKey
      "initial\<lparr>lastResponseWasError := True\<rparr>" "sampleHost True ''  ''" "[0x0D]"]
  note refusing = C5_interceptor_order [of sampleMatchesKey initial "sampleHost True ''  ''"
      "[0x0D]"]
  have pass: "onTerminalInput sampleMatchesKey (initial\<lparr>lastResponseWasError := True\<rparr>)
       (sampleHost True ''  '') [0x0D]
     = (initial\<lparr>lastResponseWasError := True, pendingRetryCleanup := True\<rparr>,
        [IsIdle, GetEditorText,
         LogRetryEvent (logEntry (sampleHost True ''  '') Manual_retry None None 1 1 None),
         SendMessage RETRY_CUSTOM_TYPE (js ''Retrying.'') False True],
        Some True)"
    and fields: "map (\<lambda>e. (event e, attempt e, maxRetries e, stopReason e, errorMessage e, delayMs e))
     (logged (fst (snd (onTerminalInput sampleMatchesKey (initial\<lparr>lastResponseWasError := True\<rparr>)
                          (sampleHost True ''  '') [0x0D]))))
     = [(Manual_retry, 1, 1, None, None, None)]"
    and trigger: "sent (fst (snd (onTerminalInput sampleMatchesKey
                     (initial\<lparr>lastResponseWasError := True\<rparr>) (sampleHost True ''  '') [0x0D])))
     = [(RETRY_CUSTOM_TYPE, js ''Retrying.'', False, True)]"
    using passing key blank idle failed by auto
  have refuse: "snd (snd (onTerminalInput sampleMatchesKey initial (sampleHost True ''  '') [0x0D]))
      = None"
    and unasked: "IsIdle \<notin> set (fst (snd (onTerminalInput sampleMatchesKey initial
        (sampleHost True ''  '') [0x0D])))"
    and silent: "logged (fst (snd (onTerminalInput sampleMatchesKey initial (sampleHost True ''  '')
        [0x0D]))) = []"
    using refusing key blank idle succeeded by auto
  from pass fields trigger refuse unasked silent show ?thesis
    by (simp only: RETRY_CUSTOM_TYPE_def simp_thms)
qed

text \<open>
  C5 as the specification states it puts the editor before the gate. With the Enter key,
  a failed last response, a busy agent and text in the editor, the code asks whether the
  agent is idle and never reads the editor; in the stated order it reads the editor and
  never asks for the idle state.
\<close>

theorem C5_order_counterexample:
  "onTerminalInput sampleMatchesKey (initial\<lparr>lastResponseWasError := True\<rparr>)
       (sampleHost False ''abc'') [0x0D]
     = (initial\<lparr>lastResponseWasError := True\<rparr>, [IsIdle], None) \<and>
   onTerminalInput_as_specified sampleMatchesKey (initial\<lparr>lastResponseWasError := True\<rparr>)
       (sampleHost False ''abc'') [0x0D]
     = (initial\<lparr>lastResponseWasError := True\<rparr>, [GetEditorText], None)"
proof -
  have key: "sampleMatchesKey [0x0D] (js ''enter'')"
    by (simp add: sampleMatchesKey_def)
  have filled: "trim (ui_editorText (sampleHost False ''abc'')) \<noteq> []"
    by code_simp
  have busy: "\<not> ctx_isIdle (sampleHost False ''abc'')"
    by (simp add: sampleHost_def)
  show ?thesis
    by (simp add: onTerminalInput_def onTerminalInput_as_specified_def key filled busy)
qed

text \<open>
  C6. At the \<^verbatim>\<open>turn_end\<close> of an assistant message whose stop reason is neither \<^verbatim>\<open>error\<close>
  nor \<^verbatim>\<open>aborted\<close>, \<open>lastResponseWasError\<close> becomes false. If \<open>retryAttempt\<close> is positive,
  the handler writes one record, whose event is \<^verbatim>\<open>retry_succeeded\<close>, whose attempt is
  \<open>retryAttempt\<close> and which carries the stored stop reason and error text; it shows the
  information \<^verbatim>\<open>Retry succeeded on attempt N.\<close>, where \<^verbatim>\<open>N\<close> is \<open>retryAttempt\<close> in decimal
  (one digit for the attempts below ten, so for every attempt up to \<open>MAX_RETRIES\<close>); it
  clears the status line and resets \<open>retryAttempt\<close>, the stored error text and the stored
  stop reason. If \<open>retryAttempt\<close> is zero it logs nothing, shows nothing and resets nothing.
\<close>

theorem C6_turn_end_success:
  assumes "role msg = js ''assistant''"
      and "msg_stopReason msg \<noteq> js ''error''"
      and "msg_stopReason msg \<noteq> js ''aborted''"
  shows "turn_end s h msg =
     (if 0 < retryAttempt s then
        (s\<lparr>retryAttempt := 0, lastErrorMessage := [], lastStopReason := [],
           lastResponseWasError := False\<rparr>,
         [LogRetryEvent
            (logEntry h Retry_succeeded (Some (lastStopReason s)) (Some (lastErrorMessage s))
               (retryAttempt s) MAX_RETRIES None),
          Notify (js ''Retry succeeded on attempt '' @ toString (retryAttempt s) @ js ''.'') Info,
          SetStatus (js ''pi-retry'') None])
      else (s\<lparr>lastResponseWasError := False\<rparr>, [])) \<and>
     \<not> lastResponseWasError (fst (turn_end s h msg)) \<and>
     map (\<lambda>e. (event e, attempt e, maxRetries e, stopReason e, errorMessage e, delayMs e))
         (logged (snd (turn_end s h msg)))
       = (if 0 < retryAttempt s
          then [(Retry_succeeded, retryAttempt s, 3, Some (lastStopReason s),
                 Some (lastErrorMessage s), None)]
          else []) \<and>
     map (\<lambda>e. (timestamp e, cwd e, sessionId e)) (logged (snd (turn_end s h msg)))
       = (if 0 < retryAttempt s then [(clock h, ctx_cwd h, Some (ctx_sessionId h))] else []) \<and>
     notified (snd (turn_end s h msg))
       = (if retryAttempt s = 0 then []
          else if retryAttempt s < 10
          then [(js ''Retry succeeded on attempt '' @ [of_nat (48 + retryAttempt s)] @ js ''.'',
                 Info)]
          else [(js ''Retry succeeded on attempt '' @ toString (retryAttempt s div 10)
                   @ [of_nat (48 + retryAttempt s mod 10)] @ js ''.'', Info)]) \<and>
     notified (snd (turn_end (s\<lparr>retryAttempt := 1\<rparr>) h msg))
       = [(js ''Retry succeeded on attempt 1.'', Info)] \<and>
     notified (snd (turn_end (s\<lparr>retryAttempt := 2\<rparr>) h msg))
       = [(js ''Retry succeeded on attempt 2.'', Info)] \<and>
     notified (snd (turn_end (s\<lparr>retryAttempt := 3\<rparr>) h msg))
       = [(js ''Retry succeeded on attempt 3.'', Info)] \<and>
     sent (snd (turn_end s h msg)) = [] \<and>
     waits (snd (turn_end s h msg)) = []"
proof -
  have whole: "turn_end s' h msg =
     (if 0 < retryAttempt s' then
        (s'\<lparr>retryAttempt := 0, lastErrorMessage := [], lastStopReason := [],
           lastResponseWasError := False\<rparr>,
         [LogRetryEvent
            (logEntry h Retry_succeeded (Some (lastStopReason s')) (Some (lastErrorMessage s'))
               (retryAttempt s') MAX_RETRIES None),
          Notify (js ''Retry succeeded on attempt '' @ toString (retryAttempt s') @ js ''.'') Info,
          SetStatus (js ''pi-retry'') None])
      else (s'\<lparr>lastResponseWasError := False\<rparr>, []))" for s'
    using assms by (simp add: turn_end_def Let_def)
  have digits: "toString (Suc 0) = js ''1''" "toString 2 = js ''2''" "toString 3 = js ''3''"
    by (simp_all add: toString.simps js_def)
  have decimal: "toString (retryAttempt s) =
      (if retryAttempt s < 10 then [of_nat (48 + retryAttempt s)]
       else toString (retryAttempt s div 10) @ [of_nat (48 + retryAttempt s mod 10)])"
    by (rule toString.simps)
  have named: "notified (snd (turn_end s h msg))
       = (if retryAttempt s = 0 then []
          else if retryAttempt s < 10
          then [(js ''Retry succeeded on attempt '' @ [of_nat (48 + retryAttempt s)] @ js ''.'',
                 Info)]
          else [(js ''Retry succeeded on attempt '' @ toString (retryAttempt s div 10)
                   @ [of_nat (48 + retryAttempt s mod 10)] @ js ''.'', Info)])"
    unfolding whole by (subst decimal) simp
  have fields: "map (\<lambda>e. (event e, attempt e, maxRetries e, stopReason e, errorMessage e, delayMs e))
         (logged (snd (turn_end s h msg)))
       = (if 0 < retryAttempt s
          then [(Retry_succeeded, retryAttempt s, 3, Some (lastStopReason s),
                 Some (lastErrorMessage s), None)]
          else [])"
    and origin: "map (\<lambda>e. (timestamp e, cwd e, sessionId e)) (logged (snd (turn_end s h msg)))
       = (if 0 < retryAttempt s then [(clock h, ctx_cwd h, Some (ctx_sessionId h))] else [])"
    unfolding whole by (simp_all add: logEntry_def MAX_RETRIES_def)
  have explicit:
    "notified (snd (turn_end (s\<lparr>retryAttempt := 1\<rparr>) h msg))
       = [(js ''Retry succeeded on attempt 1.'', Info)]"
    "notified (snd (turn_end (s\<lparr>retryAttempt := 2\<rparr>) h msg))
       = [(js ''Retry succeeded on attempt 2.'', Info)]"
    "notified (snd (turn_end (s\<lparr>retryAttempt := 3\<rparr>) h msg))
       = [(js ''Retry succeeded on attempt 3.'', Info)]"
    unfolding whole by (simp_all add: digits js_append)
  have rest: "\<not> lastResponseWasError (fst (turn_end s h msg))"
    "sent (snd (turn_end s h msg)) = []" "waits (snd (turn_end s h msg)) = []"
    unfolding whole by simp_all
  from whole [of s] named fields origin explicit rest show ?thesis
    by (simp only: simp_thms)
qed

theorem C6_turn_end_success_witness:
  "fst (agent_end initial (sampleHost False '''')
          [assistantMessage ''aborted'' ''upstream aborted connection''])
     = \<lparr>retryAttempt = 1, lastErrorMessage = js ''upstream aborted connection'',
        lastStopReason = js ''aborted'', lastResponseWasError = True,
        pendingRetryCleanup = True\<rparr> \<and>
   fst (turn_end
       \<lparr>retryAttempt = 1, lastErrorMessage = js ''upstream aborted connection'',
        lastStopReason = js ''aborted'', lastResponseWasError = True,
        pendingRetryCleanup = True\<rparr>
       (sampleHost False '''') (assistantMessage ''stop'' ''''))
     = \<lparr>retryAttempt = 0, lastErrorMessage = [], lastStopReason = [],
         lastResponseWasError = False, pendingRetryCleanup = True\<rparr> \<and>
   map (\<lambda>e. (event e, attempt e, maxRetries e, stopReason e, errorMessage e, delayMs e))
     (logged (snd (turn_end
       \<lparr>retryAttempt = 1, lastErrorMessage = js ''upstream aborted connection'',
        lastStopReason = js ''aborted'', lastResponseWasError = True,
        pendingRetryCleanup = True\<rparr>
       (sampleHost False '''') (assistantMessage ''stop'' ''''))))
     = [(Retry_succeeded, 1, 3, Some (js ''aborted''), Some (js ''upstream aborted connection''),
         None)] \<and>
   notified (snd (turn_end
       \<lparr>retryAttempt = 1, lastErrorMessage = js ''upstream aborted connection'',
        lastStopReason = js ''aborted'', lastResponseWasError = True,
        pendingRetryCleanup = True\<rparr>
       (sampleHost False '''') (assistantMessage ''stop'' '''')))
     = [(js ''Retry succeeded on attempt 1.'', Info)] \<and>
   map (\<lambda>e. (event e, attempt e))
     (logged (snd (turn_end (initial\<lparr>retryAttempt := 2\<rparr>) (sampleHost False '''')
        (assistantMessage ''stop'' ''''))))
     = [(Retry_succeeded, 2)] \<and>
   notified (snd (turn_end (initial\<lparr>retryAttempt := 2\<rparr>) (sampleHost False '''')
        (assistantMessage ''stop'' '''')))
     = [(js ''Retry succeeded on attempt 2.'', Info)] \<and>
   map (\<lambda>e. (event e, attempt e))
     (logged (snd (turn_end (initial\<lparr>retryAttempt := 3\<rparr>) (sampleHost False '''')
        (assistantMessage ''stop'' ''''))))
     = [(Retry_succeeded, 3)] \<and>
   notified (snd (turn_end (initial\<lparr>retryAttempt := 3\<rparr>) (sampleHost False '''')
        (assistantMessage ''stop'' '''')))
     = [(js ''Retry succeeded on attempt 3.'', Info)] \<and>
   turn_end initial (sampleHost False '''') (assistantMessage ''stop'' '''')
     = (initial, [])"
proof -
  let ?s = "\<lparr>retryAttempt = 1, lastErrorMessage = js ''upstream aborted connection'',
        lastStopReason = js ''aborted'', lastResponseWasError = True,
        pendingRetryCleanup = True\<rparr>"
  let ?ok = "assistantMessage ''stop'' ''''"
  let ?h = "sampleHost False ''''"
  have first: "fst (agent_end initial ?h
          [assistantMessage ''aborted'' ''upstream aborted connection'']) = ?s"
    by (simp add: agent_end_retry [OF sample_found upstream_aborted_retryable] initial_def
        MAX_RETRIES_def sample_fields)
  have assistant: "role ?ok = js ''assistant''"
    by (simp add: sample_fields)
  have no_error: "msg_stopReason ?ok \<noteq> js ''error''"
    by (simp add: sample_fields js_eq_iff)
  have no_abort: "msg_stopReason ?ok \<noteq> js ''aborted''"
    by (simp add: sample_fields js_eq_iff)
  note once = C6_turn_end_success [OF assistant no_error no_abort, of ?s ?h]
  note twice = C6_turn_end_success [OF assistant no_error no_abort, of "initial\<lparr>retryAttempt := 2\<rparr>" ?h]
  note thrice = C6_turn_end_success [OF assistant no_error no_abort, of "initial\<lparr>retryAttempt := 3\<rparr>" ?h]
  note never = C6_turn_end_success [OF assistant no_error no_abort, of initial ?h]
  have a: "fst (turn_end ?s ?h ?ok)
     = \<lparr>retryAttempt = 0, lastErrorMessage = [], lastStopReason = [],
         lastResponseWasError = False, pendingRetryCleanup = True\<rparr>"
    using once [THEN conjunct1] by simp
  have b: "map (\<lambda>e. (event e, attempt e, maxRetries e, stopReason e, errorMessage e, delayMs e))
     (logged (snd (turn_end ?s ?h ?ok)))
     = [(Retry_succeeded, 1, 3, Some (js ''aborted''), Some (js ''upstream aborted connection''),
         None)]"
    using once [THEN conjunct2, THEN conjunct2, THEN conjunct1] by simp
  have c: "notified (snd (turn_end ?s ?h ?ok)) = [(js ''Retry succeeded on attempt 1.'', Info)]"
    using once [THEN conjunct2, THEN conjunct2, THEN conjunct2, THEN conjunct2, THEN conjunct2,
        THEN conjunct1] by simp
  have d: "map (\<lambda>e. (event e, attempt e))
     (logged (snd (turn_end (initial\<lparr>retryAttempt := 2\<rparr>) ?h ?ok))) = [(Retry_succeeded, 2)]"
    using arg_cong [OF twice [THEN conjunct2, THEN conjunct2, THEN conjunct1],
        of "map (\<lambda>(e, a, r). (e, a))"]
    by (simp add: comp_def)
  have e: "notified (snd (turn_end (initial\<lparr>retryAttempt := 2\<rparr>) ?h ?ok))
     = [(js ''Retry succeeded on attempt 2.'', Info)]"
    using twice [THEN conjunct2, THEN conjunct2, THEN conjunct2, THEN conjunct2, THEN conjunct2,
        THEN conjunct2, THEN conjunct1] by simp
  have f: "map (\<lambda>e. (event e, attempt e))
     (logged (snd (turn_end (initial\<lparr>retryAttempt := 3\<rparr>) ?h ?ok))) = [(Retry_succeeded, 3)]"
    using arg_cong [OF thrice [THEN conjunct2, THEN conjunct2, THEN conjunct1],
        of "map (\<lambda>(e, a, r). (e, a))"]
    by (simp add: comp_def)
  have g: "notified (snd (turn_end (initial\<lparr>retryAttempt := 3\<rparr>) ?h ?ok))
     = [(js ''Retry succeeded on attempt 3.'', Info)]"
    using thrice [THEN conjunct2, THEN conjunct2, THEN conjunct2, THEN conjunct2, THEN conjunct2,
        THEN conjunct2, THEN conjunct2, THEN conjunct1] by simp
  have z: "turn_end initial ?h ?ok = (initial, [])"
    using never [THEN conjunct1] by (simp add: initial_def)
  from first a b c d e f g z show ?thesis
    by (simp only: simp_thms)
qed

text \<open>
  C7. When a failure that reaches line 177 is attempt \<open>N\<close> of its episode, with
  \<open>N \<le> MAX_RETRIES\<close>, the handler waits \<open>BASE_DELAY_MS * 2 ^ (N - 1)\<close> milliseconds, once, and
  the one record it logs is a \<^verbatim>\<open>retry\<close> record with attempt \<open>N\<close> and that same delay as
  \<^verbatim>\<open>delayMs\<close>. The delay is 2000 for the first attempt, 4000 for the second and 8000 for the
  third.
\<close>

theorem C7_backoff_delay:
  assumes "findLastAssistant messages = Some la"
      and "autoRetryable la"
      and "retryAttempt s + 1 = N"
      and "N \<le> MAX_RETRIES"
  shows "waits (snd (agent_end s h messages)) = [BASE_DELAY_MS * 2 ^ (N - 1)] \<and>
         map (\<lambda>e. (event e, attempt e, delayMs e)) (logged (snd (agent_end s h messages)))
           = [(Retry, N, Some (BASE_DELAY_MS * 2 ^ (N - 1)))] \<and>
         BASE_DELAY_MS * 2 ^ (N - 1) = (if N = 1 then 2000 else if N = 2 then 4000 else 8000)"
proof -
  from assms(3,4) have below: "retryAttempt s < MAX_RETRIES"
    by simp
  from assms(3) have prev: "N - 1 = retryAttempt s"
    by simp
  from assms(3,4) have "N = 1 \<or> N = 2 \<or> N = 3"
    by (auto simp add: MAX_RETRIES_def)
  then have delays:
    "BASE_DELAY_MS * 2 ^ (N - 1) = (if N = 1 then 2000 else if N = 2 then 4000 else 8000)"
    by (auto simp add: BASE_DELAY_MS_def)
  show ?thesis
    unfolding agent_end_retry [OF assms(1,2) below, of h] prev [symmetric]
    using delays assms(3) by (simp add: logEntry_def)
qed

theorem C7_backoff_delay_witness:
  "waits (snd (agent_end initial (sampleHost False '''')
                 [assistantMessage ''aborted'' ''upstream aborted connection''])) = [2000] \<and>
   waits (snd (agent_end (initial\<lparr>retryAttempt := 1\<rparr>) (sampleHost False '''')
                 [assistantMessage ''aborted'' ''upstream aborted connection''])) = [4000] \<and>
   waits (snd (agent_end (initial\<lparr>retryAttempt := 2\<rparr>) (sampleHost False '''')
                 [assistantMessage ''aborted'' ''upstream aborted connection''])) = [8000] \<and>
   map (\<lambda>e. (event e, attempt e, delayMs e))
     (logged (snd (agent_end (initial\<lparr>retryAttempt := 2\<rparr>) (sampleHost False '''')
                     [assistantMessage ''aborted'' ''upstream aborted connection''])))
     = [(Retry, 3, Some 8000)]"
proof -
  let ?m = "assistantMessage ''aborted'' ''upstream aborted connection''"
  have n1: "retryAttempt initial + 1 = 1" and n2: "retryAttempt (initial\<lparr>retryAttempt := 1\<rparr>) + 1 = 2"
    and n3: "retryAttempt (initial\<lparr>retryAttempt := 2\<rparr>) + 1 = 3"
    by (simp_all add: initial_def)
  have b1: "1 \<le> MAX_RETRIES" and b2: "2 \<le> MAX_RETRIES" and b3: "3 \<le> MAX_RETRIES"
    by (simp_all add: MAX_RETRIES_def)
  show ?thesis
    using C7_backoff_delay [OF sample_found upstream_aborted_retryable n1 b1, of "sampleHost False ''''"]
      C7_backoff_delay [OF sample_found upstream_aborted_retryable n2 b2, of "sampleHost False ''''"]
      C7_backoff_delay [OF sample_found upstream_aborted_retryable n3 b3, of "sampleHost False ''''"]
    by simp
qed

text \<open>
  C8. The \<^verbatim>\<open>retry\<close> command asks whether the agent is idle. If it is not, the command warns
  \<^verbatim>\<open>Agent is still running.\<close>, logs nothing, sends nothing and leaves the state as it is. If
  it is idle and the last response did not fail, the same holds with another warning text.
  If it is idle and the last response failed, the command warns nothing, logs one record,
  whose event is \<^verbatim>\<open>manual_retry\<close> and whose attempt and ceiling are 1, with no stop
  reason, error text or delay, and sends the trigger. So a record is logged or a trigger
  sent only in the third case.
\<close>

theorem C8_manual_retry_gate:
  "(\<not> ctx_isIdle h \<longrightarrow>
      fst (retry_command s h) = s \<and>
      notified (snd (retry_command s h)) = [(js ''Agent is still running.'', Warning)] \<and>
      logged (snd (retry_command s h)) = [] \<and> sent (snd (retry_command s h)) = []) \<and>
   (ctx_isIdle h \<and> \<not> lastResponseWasError s \<longrightarrow>
      fst (retry_command s h) = s \<and>
      notified (snd (retry_command s h))
        = [(js ''Nothing to retry '' @ [0x2014] @ js '' last response completed successfully.'',
            Warning)] \<and>
      logged (snd (retry_command s h)) = [] \<and> sent (snd (retry_command s h)) = []) \<and>
   (ctx_isIdle h \<and> lastResponseWasError s \<longrightarrow>
      notified (snd (retry_command s h)) = [] \<and>
      logged (snd (retry_command s h)) = [logEntry h Manual_retry None None 1 1 None] \<and>
      map (\<lambda>e. (event e, attempt e, maxRetries e, stopReason e, errorMessage e, delayMs e))
          (logged (snd (retry_command s h)))
        = [(Manual_retry, 1, 1, None, None, None)] \<and>
      map (\<lambda>e. (timestamp e, cwd e, sessionId e)) (logged (snd (retry_command s h)))
        = [(clock h, ctx_cwd h, Some (ctx_sessionId h))] \<and>
      sent (snd (retry_command s h)) = [(RETRY_CUSTOM_TYPE, js ''Retrying.'', False, True)]) \<and>
   js ''Agent is still running.''
     \<noteq> js ''Nothing to retry '' @ [0x2014] @ js '' last response completed successfully.'' \<and>
   ((logged (snd (retry_command s h)) \<noteq> [] \<or> sent (snd (retry_command s h)) \<noteq> []) \<longleftrightarrow>
      ctx_isIdle h \<and> lastResponseWasError s)"
proof -
  have "js ''Agent is still running.''
      \<noteq> js ''Nothing to retry '' @ [0x2014] @ js '' last response completed successfully.''"
    by (simp add: js_def)
  then show ?thesis
    by (simp add: retry_command_def triggerRetry_def logEntry_def)
qed

theorem C8_manual_retry_gate_witness:
  "notified (snd (retry_command (initial\<lparr>lastResponseWasError := True\<rparr>) (sampleHost False '''')))
     = [(js ''Agent is still running.'', Warning)] \<and>
   logged (snd (retry_command (initial\<lparr>lastResponseWasError := True\<rparr>) (sampleHost False '''')))
     = [] \<and>
   sent (snd (retry_command (initial\<lparr>lastResponseWasError := True\<rparr>) (sampleHost False '''')))
     = [] \<and>
   notified (snd (retry_command initial (sampleHost True '''')))
     = [(js ''Nothing to retry '' @ [0x2014] @ js '' last response completed successfully.'',
         Warning)] \<and>
   logged (snd (retry_command initial (sampleHost True ''''))) = [] \<and>
   sent (snd (retry_command initial (sampleHost True ''''))) = [] \<and>
   map (\<lambda>e. (event e, attempt e, maxRetries e, stopReason e, errorMessage e, delayMs e))
     (logged (snd (retry_command (initial\<lparr>lastResponseWasError := True\<rparr>)
                     (sampleHost True ''''))))
     = [(Manual_retry, 1, 1, None, None, None)] \<and>
   sent (snd (retry_command (initial\<lparr>lastResponseWasError := True\<rparr>) (sampleHost True '''')))
     = [(js ''__retry_trigger'', js ''Retrying.'', False, True)]"
proof -
  have busy: "\<not> ctx_isIdle (sampleHost False '''')" and idle: "ctx_isIdle (sampleHost True '''')"
    by (simp_all add: sampleHost_def)
  have failed: "lastResponseWasError (initial\<lparr>lastResponseWasError := True\<rparr>)"
    and succeeded: "\<not> lastResponseWasError initial"
    by (simp_all add: initial_def)
  show ?thesis
    using C8_manual_retry_gate [of "sampleHost False ''''" "initial\<lparr>lastResponseWasError := True\<rparr>"]
      C8_manual_retry_gate [of "sampleHost True ''''" initial]
      C8_manual_retry_gate [of "sampleHost True ''''" "initial\<lparr>lastResponseWasError := True\<rparr>"]
      busy idle failed succeeded
    by (auto simp add: RETRY_CUSTOM_TYPE_def)
qed

text \<open>
  C9. After any sequence of events from the initial state, \<open>retryAttempt\<close> is at most
  \<open>MAX_RETRIES\<close>; the sequences include those that place other events between the two
  halves of \<^verbatim>\<open>agent_end\<close>. Line 177 of \<^verbatim>\<open>agent_end\<close> is the only place that raises
  \<open>retryAttempt\<close>: the other handlers leave it as it is or reset it. When the value after
  line 177 exceeds \<open>MAX_RETRIES\<close> it is \<open>MAX_RETRIES + 1\<close>, and the handler has reset it to 0
  when it reaches the timer or returns.
\<close>

theorem C9_attempt_bound:
  "retryAttempt (run mk evs) \<le> MAX_RETRIES \<and>
   (findLastAssistant messages = Some la \<and> autoRetryable la
      \<and> MAX_RETRIES < retryAttempt (run mk evs) + 1 \<longrightarrow>
        retryAttempt (run mk evs) + 1 = MAX_RETRIES + 1 \<and>
        retryAttempt (fst (agent_end_decide (run mk evs) h messages)) = 0 \<and>
        retryAttempt (fst (agent_end (run mk evs) h messages)) = 0) \<and>
   retryAttempt (fst (turn_end s h msg)) \<le> retryAttempt s \<and>
   retryAttempt (fst (agent_end_resume s)) = retryAttempt s \<and>
   retryAttempt (fst (retry_command s h)) = retryAttempt s \<and>
   retryAttempt (fst (onTerminalInput mk s h data)) = retryAttempt s \<and>
   retryAttempt (fst (context_handler s messages)) = retryAttempt s"
proof -
  have bound: "retryAttempt (run mk evs) \<le> MAX_RETRIES"
    by (rule run_attempt_bound)
  have transient:
    "retryAttempt (run mk evs) + 1 = MAX_RETRIES + 1 \<and>
     retryAttempt (fst (agent_end_decide (run mk evs) h messages)) = 0 \<and>
     retryAttempt (fst (agent_end (run mk evs) h messages)) = 0"
    if "findLastAssistant messages = Some la" and "autoRetryable la"
      and "MAX_RETRIES < retryAttempt (run mk evs) + 1"
    using that bound by (simp add: agent_end_attempt agent_end_decide_attempt)
  have others:
    "retryAttempt (fst (turn_end s h msg)) \<le> retryAttempt s \<and>
     retryAttempt (fst (agent_end_resume s)) = retryAttempt s \<and>
     retryAttempt (fst (retry_command s h)) = retryAttempt s \<and>
     retryAttempt (fst (onTerminalInput mk s h data)) = retryAttempt s \<and>
     retryAttempt (fst (context_handler s messages)) = retryAttempt s"
    by (simp add: turn_end_def Let_def agent_end_resume_def retry_command_def
        onTerminalInput_def context_handler_def triggerRetry_def)
  from bound transient others show ?thesis
    by blast
qed

theorem C9_attempt_bound_witness:
  "retryAttempt (run sampleMatchesKey
       [Agent_end (sampleHost False '''') [assistantMessage ''aborted'' ''upstream aborted connection''],
        Agent_end_decide (sampleHost False '''') [assistantMessage ''aborted'' ''upstream aborted connection''],
        Retry_command (sampleHost True ''''),
        Agent_end_resume,
        Agent_end (sampleHost False '''') [assistantMessage ''aborted'' ''upstream aborted connection'']])
     = 3 \<and>
   retryAttempt (fst (agent_end (run sampleMatchesKey
       [Agent_end (sampleHost False '''') [assistantMessage ''aborted'' ''upstream aborted connection''],
        Agent_end_decide (sampleHost False '''') [assistantMessage ''aborted'' ''upstream aborted connection''],
        Retry_command (sampleHost True ''''),
        Agent_end_resume,
        Agent_end (sampleHost False '''') [assistantMessage ''aborted'' ''upstream aborted connection'']])
     (sampleHost False '''') [assistantMessage ''aborted'' ''upstream aborted connection''])) = 0"
proof -
  let ?m = "assistantMessage ''aborted'' ''upstream aborted connection''"
  let ?h = "sampleHost False ''''"
  let ?evs = "[Agent_end ?h [?m], Agent_end_decide ?h [?m], Retry_command (sampleHost True ''''),
               Agent_end_resume, Agent_end ?h [?m]]"
  have three: "retryAttempt (run sampleMatchesKey ?evs) = 3"
    by (simp add: run_def initial_def agent_end_attempt agent_end_decide_attempt sample_found
        upstream_aborted_retryable MAX_RETRIES_def retry_command_def triggerRetry_def
        agent_end_resume_def)
  then have above: "MAX_RETRIES < retryAttempt (run sampleMatchesKey ?evs) + 1"
    by (simp add: MAX_RETRIES_def)
  show ?thesis
    using C9_attempt_bound [of sampleMatchesKey ?evs "[?m]" ?m ?h]
      sample_found [of "''aborted''" "''upstream aborted connection''"]
      upstream_aborted_retryable above three
    by simp
qed

text \<open>
  C10. Neither manual retry path touches the episode: after the \<^verbatim>\<open>retry\<close> command and
  after the Enter interceptor, \<open>retryAttempt\<close>, \<open>lastErrorMessage\<close>, \<open>lastStopReason\<close> and
  \<open>lastResponseWasError\<close> have the values they had before. The state is the one before
  when no trigger was sent, and the one before with \<open>pendingRetryCleanup\<close> set when the
  trigger was sent.
\<close>

theorem C10_manual_retry_frame:
  "retryAttempt (fst (retry_command s h)) = retryAttempt s \<and>
   lastErrorMessage (fst (retry_command s h)) = lastErrorMessage s \<and>
   lastStopReason (fst (retry_command s h)) = lastStopReason s \<and>
   lastResponseWasError (fst (retry_command s h)) = lastResponseWasError s \<and>
   fst (retry_command s h) =
     (if sent (snd (retry_command s h)) = [] then s else s\<lparr>pendingRetryCleanup := True\<rparr>) \<and>
   retryAttempt (fst (onTerminalInput mk s h data)) = retryAttempt s \<and>
   lastErrorMessage (fst (onTerminalInput mk s h data)) = lastErrorMessage s \<and>
   lastStopReason (fst (onTerminalInput mk s h data)) = lastStopReason s \<and>
   lastResponseWasError (fst (onTerminalInput mk s h data)) = lastResponseWasError s \<and>
   fst (onTerminalInput mk s h data) =
     (if sent (fst (snd (onTerminalInput mk s h data))) = [] then s
      else s\<lparr>pendingRetryCleanup := True\<rparr>)"
  by (simp add: retry_command_def onTerminalInput_def triggerRetry_def)

theorem C10_manual_retry_frame_witness:
  "fst (retry_command
          \<lparr>retryAttempt = 2, lastErrorMessage = js ''aborted'', lastStopReason = js ''error'',
           lastResponseWasError = True, pendingRetryCleanup = False\<rparr> (sampleHost True ''''))
     = \<lparr>retryAttempt = 2, lastErrorMessage = js ''aborted'', lastStopReason = js ''error'',
        lastResponseWasError = True, pendingRetryCleanup = True\<rparr> \<and>
   fst (onTerminalInput sampleMatchesKey
          \<lparr>retryAttempt = 2, lastErrorMessage = js ''aborted'', lastStopReason = js ''error'',
           lastResponseWasError = True, pendingRetryCleanup = False\<rparr> (sampleHost True '''')
          [0x0D])
     = \<lparr>retryAttempt = 2, lastErrorMessage = js ''aborted'', lastStopReason = js ''error'',
        lastResponseWasError = True, pendingRetryCleanup = True\<rparr>"
proof -
  let ?s = "\<lparr>retryAttempt = 2, lastErrorMessage = js ''aborted'', lastStopReason = js ''error'',
           lastResponseWasError = True, pendingRetryCleanup = False\<rparr>"
  have by_command: "sent (snd (retry_command ?s (sampleHost True ''''))) \<noteq> []"
    by (simp add: retry_command_def triggerRetry_def sampleHost_def)
  have blank: "trim (ui_editorText (sampleHost True '''')) = []"
    by (simp add: sampleHost_def trim_def js_def)
  have by_enter: "sent (fst (snd (onTerminalInput sampleMatchesKey ?s (sampleHost True '''') [0x0D])))
      \<noteq> []"
    using blank by (simp add: onTerminalInput_def triggerRetry_def sampleHost_def sampleMatchesKey_def)
  show ?thesis
    using C10_manual_retry_frame [of ?s "sampleHost True ''''" sampleMatchesKey "[0x0D]"]
      by_command by_enter
    by simp
qed

end
